theory Spec2Isabelle
  imports Main "HOL-Library.Sublist"
begin

text \<open>
  A model of two components of the autowrx front end: \<open>DaGenAI_Base\<close>, which builds the
  catalog of code generators and sends a prompt to the selected one, and
  \<open>PrototypeTabCode\<close>, which keeps the edited text of a prototype and writes it to the
  back end. State is passed explicitly, calls to the outside are events or parameters,
  and an exception is a value.
\<close>

section \<open>JavaScript strings\<close>

text \<open>
  A JavaScript string is a sequence of UTF-16 code units. The model uses \<^typ>\<open>string\<close>
  and reads a \<^typ>\<open>char\<close> as the code unit with the same number, so it covers the
  texts whose code units lie in U+0000 .. U+00FF. \<open>undefined\<close> is \<^const>\<open>None\<close>
  of an option type wherever the source allows it.
\<close>

definition is_js_whitespace :: "char \<Rightarrow> bool" where
  \<comment> \<open>WhiteSpace and LineTerminator of ECMAScript in the range of the model:
      TAB, LF, VT, FF, CR, SP, NBSP.\<close>
  "is_js_whitespace c \<longleftrightarrow>
     c \<in> set [CHR 0x09, CHR 0x0A, CHR 0x0B, CHR 0x0C, CHR 0x0D, CHR 0x20, CHR 0xA0]"

definition trim :: "string \<Rightarrow> string" where
  \<comment> \<open>\<open>String.prototype.trim\<close>\<close>
  "trim s = rev (dropWhile is_js_whitespace (rev (dropWhile is_js_whitespace s)))"

definition lower_char :: "char \<Rightarrow> char" where
  \<comment> \<open>A .. Z and the capital letters U+00C0 .. U+00DE (without the sign U+00D7)
      have their small letter 32 code units later.\<close>
  "lower_char c =
     (let n = (of_char c :: nat)
      in if (65 \<le> n \<and> n \<le> 90) \<or> (192 \<le> n \<and> n \<le> 222 \<and> n \<noteq> 215)
         then char_of (n + 32) else c)"

definition toLowerCase :: "string \<Rightarrow> string" where
  \<comment> \<open>\<open>String.prototype.toLowerCase\<close>\<close>
  "toLowerCase s = map lower_char s"

fun starts_with :: "string \<Rightarrow> string \<Rightarrow> bool" where
  "starts_with [] s = True"
| "starts_with (p # ps) [] = False"
| "starts_with (p # ps) (c # cs) = (p = c \<and> starts_with ps cs)"

fun includes_str :: "string \<Rightarrow> string \<Rightarrow> bool" where
  \<comment> \<open>\<open>s.includes(sub)\<close>\<close>
  "includes_str [] sub = (sub = [])"
| "includes_str (c # cs) sub = (starts_with sub (c # cs) \<or> includes_str cs sub)"

definition substring :: "nat \<Rightarrow> nat \<Rightarrow> string \<Rightarrow> string" where
  \<comment> \<open>\<open>s.substring(start, stop)\<close> with \<open>start \<le> stop\<close>; both ends are clamped to the length\<close>
  "substring start stop s = take (stop - start) (drop start s)"

section \<open>\<open>JSON.parse\<close>\<close>

text \<open>
  \<open>JSON.parse\<close> is the parser of the ECMA-404 grammar that ECMAScript prescribes.
  It is modelled by a lexer and a stack automaton over the tokens. A parsed value keeps
  the text of a number as it is written and holds the characters of a string with the
  escape sequences decoded; an escape \<open>\u\<close> above \<open>00FF\<close> names a code unit outside the
  range of the model and stays in its written form. An object holds its members as they
  are written. \<^const>\<open>None\<close> stands for the \<open>SyntaxError\<close> that \<open>JSON.parse\<close> throws.
\<close>

datatype json =
    JNull
  | JBool bool
  | JNumber string
  | JString string
  | JArray "json list"
  | JObject "(string \<times> json) list"

datatype token =
    TLBracket | TRBracket | TLBrace | TRBrace | TComma | TColon
  | TNull | TTrue | TFalse
  | TNumber string
  | TString string

definition is_json_ws :: "char \<Rightarrow> bool" where
  \<comment> \<open>the four white space characters of JSON: TAB, LF, CR, SP\<close>
  "is_json_ws c \<longleftrightarrow> c \<in> set [CHR 0x09, CHR 0x0A, CHR 0x0D, CHR 0x20]"

definition is_digit :: "char \<Rightarrow> bool" where
  "is_digit c \<longleftrightarrow> c \<in> set ''0123456789''"

definition is_hex :: "char \<Rightarrow> bool" where
  "is_hex c \<longleftrightarrow> c \<in> set ''0123456789abcdefABCDEF''"

definition is_num_char :: "char \<Rightarrow> bool" where
  \<comment> \<open>the characters a JSON number is written with\<close>
  "is_num_char c \<longleftrightarrow> c \<in> set ''0123456789+-.eE''"

definition is_control :: "char \<Rightarrow> bool" where
  \<comment> \<open>U+0000 .. U+001F, which a JSON string must escape\<close>
  "is_control c \<longleftrightarrow> (of_char c :: nat) < 32"

definition digit_value :: "char \<Rightarrow> nat" where
  \<comment> \<open>the value of a hexadecimal digit\<close>
  "digit_value c =
     (let n = (of_char c :: nat)
      in if n \<le> 57 then n - 48 else if 97 \<le> n then n - 87 else n - 55)"

definition hex_value :: "string \<Rightarrow> nat" where
  "hex_value ds = foldl (\<lambda>n c. 16 * n + digit_value c) 0 ds"

definition decimal_value :: "string \<Rightarrow> nat" where
  "decimal_value ds = foldl (\<lambda>n c. 10 * n + digit_value c) 0 ds"

definition unescape :: "char \<Rightarrow> char" where
  \<comment> \<open>the character that follows the backslash to the character it stands for\<close>
  "unescape c =
     (if c = CHR ''b'' then CHR 0x08
      else if c = CHR ''f'' then CHR 0x0C
      else if c = CHR ''n'' then CHR 0x0A
      else if c = CHR ''r'' then CHR 0x0D
      else if c = CHR ''t'' then CHR 0x09
      else c)"

definition decode_unit :: "string \<Rightarrow> string" where
  \<comment> \<open>the code unit that four hexadecimal digits name\<close>
  "decode_unit ds =
     (if hex_value ds < 256 then [char_of (hex_value ds)] else CHR 0x5C # CHR ''u'' # ds)"

datatype string_mode = SPlain | SEscape | SHex string

fun lex_string :: "string_mode \<Rightarrow> string \<Rightarrow> string \<Rightarrow> (string \<times> string) option" where
  \<comment> \<open>the input starts after the opening quote; the result is the string up to the
      closing quote and the input after it; \<open>SHex ds\<close> has read the digits \<open>ds\<close> of
      an escape \<open>\u\<close>\<close>
  "lex_string m acc [] = None"
| "lex_string SPlain acc (c # cs) =
     (if c = CHR 0x22 then Some (rev acc, cs)
      else if c = CHR 0x5C then lex_string SEscape acc cs
      else if is_control c then None
      else lex_string SPlain (c # acc) cs)"
| "lex_string SEscape acc (c # cs) =
     (if c = CHR ''u'' then lex_string (SHex []) acc cs
      else if c \<in> set [CHR 0x22, CHR 0x5C, CHR ''/'', CHR ''b'', CHR ''f'', CHR ''n'',
                        CHR ''r'', CHR ''t'']
      then lex_string SPlain (unescape c # acc) cs
      else None)"
| "lex_string (SHex ds) acc (c # cs) =
     (if is_hex c
      then (if length ds = 3
            then lex_string SPlain (rev (decode_unit (ds @ [c])) @ acc) cs
            else lex_string (SHex (ds @ [c])) acc cs)
      else None)"

definition valid_exp :: "string \<Rightarrow> bool" where
  \<comment> \<open>nothing, or \<open>e\<close>/\<open>E\<close>, an optional sign and at least one digit\<close>
  "valid_exp s =
     (case s of
        [] \<Rightarrow> True
      | c # cs \<Rightarrow>
          (c = CHR ''e'' \<or> c = CHR ''E'') \<and>
          (case cs of
             [] \<Rightarrow> False
           | x # xs \<Rightarrow>
               if x = CHR ''+'' \<or> x = CHR ''-'' then xs \<noteq> [] \<and> list_all is_digit xs
               else list_all is_digit cs))"

definition valid_frac :: "string \<Rightarrow> bool" where
  \<comment> \<open>an optional fraction (a point and at least one digit), then the exponent\<close>
  "valid_frac s =
     (case s of
        [] \<Rightarrow> True
      | c # cs \<Rightarrow>
          if c = CHR ''.''
          then (case cs of [] \<Rightarrow> False
                | d # ds \<Rightarrow> is_digit d \<and> valid_exp (dropWhile is_digit ds))
          else valid_exp s)"

definition valid_int :: "string \<Rightarrow> bool" where
  \<comment> \<open>\<open>0\<close>, or a digit other than \<open>0\<close> followed by digits; then fraction and exponent\<close>
  "valid_int s =
     (case s of
        [] \<Rightarrow> False
      | d # ds \<Rightarrow>
          if d = CHR ''0'' then valid_frac ds
          else is_digit d \<and> valid_frac (dropWhile is_digit ds))"

definition valid_number :: "string \<Rightarrow> bool" where
  "valid_number s =
     (case s of
        [] \<Rightarrow> False
      | c # cs \<Rightarrow> if c = CHR ''-'' then valid_int cs else valid_int s)"

function lex :: "string \<Rightarrow> token list option" where
  "lex [] = Some []"
| "lex (c # cs) =
     (if is_json_ws c then lex cs
      else if c = CHR ''['' then map_option ((#) TLBracket) (lex cs)
      else if c = CHR '']'' then map_option ((#) TRBracket) (lex cs)
      else if c = CHR ''{'' then map_option ((#) TLBrace) (lex cs)
      else if c = CHR ''}'' then map_option ((#) TRBrace) (lex cs)
      else if c = CHR '','' then map_option ((#) TComma) (lex cs)
      else if c = CHR '':'' then map_option ((#) TColon) (lex cs)
      else if c = CHR 0x22 then
        (case lex_string SPlain [] cs of
           None \<Rightarrow> None
         | Some (s, rest) \<Rightarrow> map_option ((#) (TString s)) (lex rest))
      else if c = CHR ''-'' \<or> is_digit c then
        (if valid_number (c # takeWhile is_num_char cs)
         then map_option ((#) (TNumber (c # takeWhile is_num_char cs)))
                (lex (dropWhile is_num_char cs))
         else None)
      else if starts_with ''null'' (c # cs) then map_option ((#) TNull) (lex (drop 3 cs))
      else if starts_with ''true'' (c # cs) then map_option ((#) TTrue) (lex (drop 3 cs))
      else if starts_with ''false'' (c # cs) then map_option ((#) TFalse) (lex (drop 4 cs))
      else None)"
  by pat_completeness auto

datatype parse_frame =
    FArray "json list"
  | FObject "(string \<times> json) list" "string option"

datatype parse_mode =
    MValue
  | MValueOrClose
  | MKeyOrClose
  | MKey
  | MColon
  | MCommaOrClose
  | MDone json

fun push_value :: "json \<Rightarrow> parse_frame list \<Rightarrow> (parse_mode \<times> parse_frame list) option" where
  \<comment> \<open>a value is complete: it is the result, or it goes into the container on top\<close>
  "push_value v [] = Some (MDone v, [])"
| "push_value v (FArray xs # st) = Some (MCommaOrClose, FArray (v # xs) # st)"
| "push_value v (FObject kvs (Some k) # st) = Some (MCommaOrClose, FObject ((k, v) # kvs) None # st)"
| "push_value v (FObject kvs None # st) = None"

fun start_value :: "token \<Rightarrow> parse_frame list \<Rightarrow> (parse_mode \<times> parse_frame list) option" where
  "start_value TNull st = push_value JNull st"
| "start_value TTrue st = push_value (JBool True) st"
| "start_value TFalse st = push_value (JBool False) st"
| "start_value (TNumber n) st = push_value (JNumber n) st"
| "start_value (TString s) st = push_value (JString s) st"
| "start_value TLBracket st = Some (MValueOrClose, FArray [] # st)"
| "start_value TLBrace st = Some (MKeyOrClose, FObject [] None # st)"
| "start_value t st = None"

fun close_array :: "parse_frame list \<Rightarrow> (parse_mode \<times> parse_frame list) option" where
  "close_array (FArray xs # st) = push_value (JArray (rev xs)) st"
| "close_array st = None"

fun close_object :: "parse_frame list \<Rightarrow> (parse_mode \<times> parse_frame list) option" where
  "close_object (FObject kvs None # st) = push_value (JObject (rev kvs)) st"
| "close_object st = None"

fun set_key :: "string \<Rightarrow> parse_frame list \<Rightarrow> (parse_mode \<times> parse_frame list) option" where
  "set_key k (FObject kvs None # st) = Some (MColon, FObject kvs (Some k) # st)"
| "set_key k st = None"

fun after_comma :: "parse_frame list \<Rightarrow> (parse_mode \<times> parse_frame list) option" where
  "after_comma (FArray xs # st) = Some (MValue, FArray xs # st)"
| "after_comma (FObject kvs None # st) = Some (MKey, FObject kvs None # st)"
| "after_comma st = None"

fun parse_step :: "parse_mode \<times> parse_frame list \<Rightarrow> token \<Rightarrow> (parse_mode \<times> parse_frame list) option" where
  "parse_step (MValue, st) t = start_value t st"
| "parse_step (MValueOrClose, st) t = (if t = TRBracket then close_array st else start_value t st)"
| "parse_step (MKeyOrClose, st) t =
     (case t of TString k \<Rightarrow> set_key k st | TRBrace \<Rightarrow> close_object st | _ \<Rightarrow> None)"
| "parse_step (MKey, st) t = (case t of TString k \<Rightarrow> set_key k st | _ \<Rightarrow> None)"
| "parse_step (MColon, st) t = (if t = TColon then Some (MValue, st) else None)"
| "parse_step (MCommaOrClose, st) t =
     (case t of
        TComma \<Rightarrow> after_comma st
      | TRBracket \<Rightarrow> close_array st
      | TRBrace \<Rightarrow> close_object st
      | _ \<Rightarrow> None)"
| "parse_step (MDone v, st) t = None"

fun parse_tokens :: "parse_mode \<times> parse_frame list \<Rightarrow> token list \<Rightarrow> json option" where
  "parse_tokens (MDone v, st) [] = Some v"
| "parse_tokens (m, st) [] = None"
| "parse_tokens c (t # ts) = (case parse_step c t of None \<Rightarrow> None | Some c' \<Rightarrow> parse_tokens c' ts)"

definition JSON_parse :: "string \<Rightarrow> json option" where
  "JSON_parse s = (case lex s of None \<Rightarrow> None | Some ts \<Rightarrow> parse_tokens (MValue, []) ts)"

section \<open>Values read from parsed data\<close>

definition number_parts :: "string \<Rightarrow> nat \<times> int" where
  \<comment> \<open>a JSON number, its sign left out, as \<open>m * 10^e\<close>: the digits before and after
      the point make \<open>m\<close>\<close>
  "number_parts n =
     (let u = (case n of [] \<Rightarrow> [] | c # cs \<Rightarrow> if c = CHR ''-'' then cs else n);
          ip = takeWhile is_digit u;
          r = dropWhile is_digit u;
          fp = (case r of [] \<Rightarrow> [] | c # cs \<Rightarrow> if c = CHR ''.'' then takeWhile is_digit cs else []);
          x = (case r of [] \<Rightarrow> [] | c # cs \<Rightarrow> if c = CHR ''.'' then dropWhile is_digit cs else r);
          ex = (case x of
                  [] \<Rightarrow> 0
                | e # cs \<Rightarrow>
                    (case cs of
                       [] \<Rightarrow> 0
                     | g # ds \<Rightarrow>
                         if g = CHR ''-'' then - int (decimal_value ds)
                         else if g = CHR ''+'' then int (decimal_value ds)
                         else int (decimal_value cs)))
      in (decimal_value (ip @ fp), ex - int (length fp)))"

definition is_zero_number :: "string \<Rightarrow> bool" where
  \<comment> \<open>the double that the number is read as is zero: the number is zero, or it is at
      most \<open>2^(-1075)\<close>, half of the least positive double\<close>
  "is_zero_number n =
     (case number_parts n of
        (m, e) \<Rightarrow> m = 0 \<or> (e < 0 \<and> m * 2 ^ 1075 \<le> 10 ^ nat (- e)))"

fun truthy :: "json \<Rightarrow> bool" where
  \<comment> \<open>ToBoolean\<close>
  "truthy JNull = False"
| "truthy (JBool b) = b"
| "truthy (JNumber n) = (\<not> is_zero_number n)"
| "truthy (JString s) = (s \<noteq> [])"
| "truthy (JArray xs) = True"
| "truthy (JObject kvs) = True"

definition index_key :: "string \<Rightarrow> nat option" where
  \<comment> \<open>the array index that a property key is, if it is one: the decimal text, without
      leading zeros, of a number below \<open>2^32 - 1\<close>\<close>
  "index_key k =
     (if k \<noteq> [] \<and> list_all is_digit k \<and> (k = ''0'' \<or> hd k \<noteq> CHR ''0'') \<and>
         decimal_value k < 4294967295
      then Some (decimal_value k) else None)"

fun decimal :: "nat \<Rightarrow> string" where
  "decimal n =
     (if n < 10 then [char_of (48 + n)] else decimal (n div 10) @ [char_of (48 + n mod 10)])"

fun read_prop :: "json \<Rightarrow> string \<Rightarrow> json option" where
  \<comment> \<open>\<open>v[k]\<close> on a value other than \<open>null\<close>, for the properties the value has of its
      own: the members of an object (of members with the same key the last one counts),
      the elements and the length of an array, the characters and the length of a string.
      \<^const>\<open>None\<close> is \<open>undefined\<close>. The properties a value inherits from its prototype
      are not modelled.\<close>
  "read_prop (JObject kvs) k = map_of (rev kvs) k"
| "read_prop (JArray xs) k =
     (if k = ''length'' then Some (JNumber (decimal (length xs)))
      else case index_key k of
             Some i \<Rightarrow> if i < length xs then Some (xs ! i) else None
           | None \<Rightarrow> None)"
| "read_prop (JString s) k =
     (if k = ''length'' then Some (JNumber (decimal (length s)))
      else case index_key k of
             Some i \<Rightarrow> if i < length s then Some (JString [s ! i]) else None
           | None \<Rightarrow> None)"
| "read_prop v k = None"

definition or_default :: "string option \<Rightarrow> string \<Rightarrow> string" where
  \<comment> \<open>\<open>x || d\<close> for an optional string \<open>x\<close>\<close>
  "or_default x d = (case x of None \<Rightarrow> d | Some s \<Rightarrow> if s = [] then d else s)"

definition first_truthy :: "json option \<Rightarrow> json \<Rightarrow> json" where
  \<comment> \<open>\<open>x || y\<close> for values of any type, where \<open>x\<close> may be \<open>undefined\<close>\<close>
  "first_truthy x y = (case x of Some v \<Rightarrow> if truthy v then v else y | None \<Rightarrow> y)"

section \<open>Document session: \<open>PrototypeTabCode\<close>\<close>

datatype editor_type = EdProject | EdCode

definition getEditorType :: "string \<Rightarrow> editor_type" where
  "getEditorType content =
     (if content = [] \<or> trim content = [] then EdCode
      else case JSON_parse content of
             Some (JArray xs) \<Rightarrow> EdProject
           | _ \<Rightarrow> EdCode)"

datatype js_error =
    Error string
  | TypeError string
  | AxiosError "string option"

text \<open>
  Modelled from the spec: the declaration of \<open>Prototype\<close> (\<open>types/model.type\<close>) is not
  among the sources. The record has the fields the component reads: the document id, the
  text, the name and the language; the extension part of the record stands for the others.
\<close>

record prototype =
  proto_id :: string
  proto_code :: "string option"
  proto_name :: string
  proto_language :: "string option"

record session =
  prototype :: "prototype option"
  code :: "string option"
  savedCode :: "string option"
  editorType :: editor_type

datatype save_event =
    UpdatePrototype string string
  | ConsoleError js_error

definition on_prototype_change :: "session \<Rightarrow> session" where
  \<comment> \<open>the effect that runs when the active prototype changes\<close>
  "on_prototype_change s =
     (case prototype s of
        None \<Rightarrow> s\<lparr>savedCode := None, code := None, editorType := EdCode\<rparr>
      | Some p \<Rightarrow>
          (let prototypeCode = or_default (proto_code p) []
           in s\<lparr>code := Some prototypeCode, savedCode := Some prototypeCode,
                editorType := getEditorType prototypeCode\<rparr>))"

definition dataToSave :: "string option \<Rightarrow> session \<Rightarrow> string option" where
  \<comment> \<open>the first part of \<open>saveCodeToDb\<close>: the text to write, \<^const>\<open>None\<close> where the
      function returns at once\<close>
  "dataToSave codeToSave s =
     (case codeToSave of
        Some c \<Rightarrow> if c = [] then None else Some c
      | None \<Rightarrow>
          (case code s of
             None \<Rightarrow> None
           | Some c \<Rightarrow> if c = [] \<or> code s = savedCode s then None else Some c))"

definition saveCodeToDb ::
  "(string \<Rightarrow> string \<Rightarrow> js_error option) \<Rightarrow> string option \<Rightarrow> session
     \<Rightarrow> session \<times> save_event list" where
  \<comment> \<open>\<open>updatePrototypeService id text\<close> is \<^const>\<open>None\<close> when the remote update
      succeeds, and the error it rejects with otherwise\<close>
  "saveCodeToDb updatePrototypeService codeToSave s =
     (case dataToSave codeToSave s of
        None \<Rightarrow> (s, [])
      | Some text \<Rightarrow>
          (case prototype s of
             None \<Rightarrow> (s, [])
           | Some p \<Rightarrow>
               if proto_id p = [] then (s, [])
               else
                 (case updatePrototypeService (proto_id p) (or_default (Some text) []) of
                    None \<Rightarrow>
                      (s\<lparr>code := Some text, savedCode := Some text,
                         prototype := Some (p\<lparr>proto_code := Some (or_default (Some text) [])\<rparr>)\<rparr>,
                       [UpdatePrototype (proto_id p) (or_default (Some text) [])])
                  | Some err \<Rightarrow>
                      (s,
                       [UpdatePrototype (proto_id p) (or_default (Some text) []),
                        ConsoleError err]))))"

definition heartbeat :: "(string \<Rightarrow> string \<Rightarrow> js_error option) \<Rightarrow> session \<Rightarrow> session \<times> save_event list" where
  \<comment> \<open>the effect on the 3000 ms ticker: \<open>saveCodeToDb()\<close>\<close>
  "heartbeat updatePrototypeService s = saveCodeToDb updatePrototypeService None s"

definition onSave :: "(string \<Rightarrow> string \<Rightarrow> js_error option) \<Rightarrow> string \<Rightarrow> session \<Rightarrow> session \<times> save_event list" where
  \<comment> \<open>the explicit save of the project editor: \<open>saveCodeToDb(data)\<close>\<close>
  "onSave updatePrototypeService data s = saveCodeToDb updatePrototypeService (Some data) s"

section \<open>Generator catalog: \<open>DaGenAI_Base\<close>\<close>

datatype gen_type = GenAI_Python | GenAI_Dashboard | GenAI_Widget

type_synonym payload = "(string \<times> string) list"

text \<open>
  Modelled from the spec: the declaration of \<open>AddOn\<close> (\<open>types/addon.type\<close>) is not among
  the sources. The record has the fields that \<open>DaGenAI_Base\<close> reads or writes; a field the
  component reads with \<open>?.\<close> or \<open>||\<close> is optional; the extension part of the record stands
  for the fields the component never names. The five fields that the component fills from
  the configuration of a user's asset hold whatever value that configuration has, a
  string or not, so they are values of type \<^typ>\<open>json\<close>.
\<close>

record addon =
  addon_id :: string
  addon_type :: gen_type
  addon_name :: string
  description :: string
  apiKey :: json
  endpointUrl :: json
  customPayload :: "(string \<Rightarrow> payload) option"
  http_method :: "json option"
  requestField :: "json option"
  responseField :: "json option"
  samples :: "string option"
  isMock :: bool

definition default_payload :: "string \<Rightarrow> payload" where
  \<comment> \<open>\<open>(prompt) => ({ prompt })\<close>\<close>
  "default_payload prompt = [(''prompt'', prompt)]"

definition sdv_copilot :: "string \<Rightarrow> addon" where
  \<comment> \<open>the built-in generator, with the endpoint given\<close>
  "sdv_copilot url =
     \<lparr>addon_id = ''sdv-copilot-builtin'', addon_type = GenAI_Python,
      addon_name = ''SDV Copilot'', description = ''Support develop basic SDV Python App'',
      apiKey = JString ''Empty'', endpointUrl = JString url,
      customPayload = Some default_payload,
      http_method = Some (JString ''POST''), requestField = Some (JString ''prompt''),
      responseField = Some (JString ''data''), samples = None, isMock = False\<rparr>"

definition initial_builtInAddOns :: "gen_type \<Rightarrow> addon list" where
  "initial_builtInAddOns type = (if type = GenAI_Python then [sdv_copilot []] else [])"

definition loadBuiltInAddOnsEndpoint ::
  "gen_type \<Rightarrow> js_error + string option \<Rightarrow> addon list \<Rightarrow> addon list" where
  \<comment> \<open>the second argument is what \<open>getConfig\<close> resolves to or rejects with; the third
      is the list held before\<close>
  "loadBuiltInAddOnsEndpoint type config builtInAddOns =
     (if type = GenAI_Python
      then (case config of
              Inl err \<Rightarrow> builtInAddOns
            | Inr url \<Rightarrow> [sdv_copilot (or_default url [])])
      else builtInAddOns)"

definition mergedBuiltInAddOns :: "addon list \<Rightarrow> addon list option \<Rightarrow> addon list" where
  "mergedBuiltInAddOns builtInAddOns marketplaceAddOns =
     map (\<lambda>addOn.
            case (case marketplaceAddOns of
                    None \<Rightarrow> None
                  | Some ms \<Rightarrow> find (\<lambda>marketAddOn. addon_id marketAddOn = addon_id addOn) ms)
            of
              Some marketplaceMatch \<Rightarrow>
                marketplaceMatch
                  \<lparr>customPayload :=
                     Some (case customPayload addOn of Some f \<Rightarrow> f | None \<Rightarrow> default_payload)\<rparr>
            | None \<Rightarrow>
                addOn
                  \<lparr>customPayload :=
                     Some (case customPayload addOn of Some f \<Rightarrow> f | None \<Rightarrow> default_payload)\<rparr>)
         builtInAddOns"

definition filteredMarketplaceAddOns :: "addon list option \<Rightarrow> addon list \<Rightarrow> addon list" where
  \<comment> \<open>the second argument is the list \<open>mergedBuiltInAddOns\<close> of the component\<close>
  "filteredMarketplaceAddOns marketplaceAddOns merged =
     (case marketplaceAddOns of
        None \<Rightarrow> []
      | Some ms \<Rightarrow>
          (let builtInIds = map addon_id merged;
               builtInNames = map (\<lambda>addon. toLowerCase (addon_name addon)) merged
           in filter
                (\<lambda>addon.
                   let addonNameLower = toLowerCase (addon_name addon);
                       isBuiltInById = (addon_id addon \<in> set builtInIds);
                       isBuiltInByName = (addonNameLower \<in> set builtInNames);
                       isSDVCopilot = (includes_str addonNameLower ''sdv copilot'' \<or>
                                       includes_str addonNameLower ''sdv-copilot'')
                   in \<not> isBuiltInById \<and> \<not> isBuiltInByName \<and> \<not> isSDVCopilot)
                ms))"

subsection \<open>Generators of the user's assets\<close>

text \<open>
  Modelled from the spec: an asset record of the asset store, with the three fields the
  component reads: its type, its name and the JSON text of its configuration.
\<close>

record asset =
  asset_type :: string
  asset_name :: "string option"
  asset_data :: "string option"

definition to_string :: "string option \<Rightarrow> string" where
  \<comment> \<open>the text of an optional string in a concatenation or as the argument of
      \<open>JSON.parse\<close>\<close>
  "to_string x = (case x of None \<Rightarrow> ''undefined'' | Some s \<Rightarrow> s)"

definition asset_config :: "asset \<Rightarrow> json \<times> json \<times> json \<times> json \<times> json" where
  \<comment> \<open>the \<open>try\<close> block and the initial values it overwrites: url, accessToken, method,
      requestField, responseField. Reading a property of \<open>null\<close> throws like a text
      that does not parse.\<close>
  "asset_config a =
     (case JSON_parse (to_string (asset_data a)) of
        None \<Rightarrow> (JString [], JString [], JString ''POST'', JString [], JString [])
      | Some JNull \<Rightarrow> (JString [], JString [], JString ''POST'', JString [], JString [])
      | Some data \<Rightarrow>
          (first_truthy (read_prop data ''url'') (JString []),
           first_truthy (read_prop data ''accessToken'') (JString []),
           first_truthy (read_prop data ''method'') (JString ''POST''),
           first_truthy (read_prop data ''requestField'') (JString ''prompt''),
           first_truthy (read_prop data ''responseField'') (JString ''data'')))"

definition asset_addon :: "string \<Rightarrow> asset \<Rightarrow> addon" where
  \<comment> \<open>the first argument is the text \<open>Math.random().toString(36)\<close> drawn for this asset\<close>
  "asset_addon random36 a =
     (case asset_config a of
        (url, accessToken, method, reqField, respField) \<Rightarrow>
          \<lparr>addon_id = to_string (asset_name a) @ ''-'' @ substring 2 8 random36,
           addon_type = GenAI_Python,
           addon_name = or_default (asset_name a) ''My python genAI'',
           description = [],
           apiKey = accessToken,
           endpointUrl = url,
           customPayload = Some default_payload,
           http_method = Some method,
           requestField = Some reqField,
           responseField = Some respField,
           samples = None,
           isMock = False\<rparr>)"

record user_addons_state =
  userAIAddons :: "addon list"
  hasGenAIAssets :: bool

definition load_userAIAddons ::
  "(nat \<Rightarrow> string) \<Rightarrow> gen_type \<Rightarrow> asset list option \<Rightarrow> user_addons_state \<Rightarrow> user_addons_state" where
  \<comment> \<open>the effect on \<open>[assets, type]\<close>; \<open>draws i\<close> is the random text drawn for the
      \<open>i\<close>-th asset of type \<open>GENAI-PYTHON\<close>\<close>
  "load_userAIAddons draws type assets st =
     (case assets of
        None \<Rightarrow> st\<lparr>userAIAddons := []\<rparr>
      | Some as \<Rightarrow>
          if type = GenAI_Python
          then (let pythonGenAIs = filter (\<lambda>asset. asset_type asset = ''GENAI-PYTHON'') as
                in st\<lparr>hasGenAIAssets := (0 < length pythonGenAIs),
                      userAIAddons :=
                        map (\<lambda>(i, asset). asset_addon (draws i) asset)
                          (enumerate 0 pythonGenAIs)\<rparr>)
          else st)"

section \<open>Generation: \<open>handleGenerate\<close>\<close>

type_synonym headers = "(string \<times> string) list"

text \<open>
  What \<open>handleGenerate\<close> does to the outside is a list of events in the order of the
  calls: the three callbacks of the component, its own \<open>loading\<close> state, the timer of the
  mock, the read of the site configuration, the requests sent with \<open>axios\<close>, the console
  and the toast.
\<close>

datatype event =
    CodeGenerated json
  | SetLoading bool
  | LoadingChange bool
  | FinishChange bool
  | Timeout nat
  | GetConfig string string
  | HttpGet string headers
  | HttpPost json payload headers
  | ConsoleLog js_error
  | ConsoleErrorGenerating js_error
  | ToastError string

text \<open>
  The collaborators of \<open>handleGenerate\<close>: what the site configuration resolves to (or
  rejects with), the body each request is answered with (or the error it fails with),
  and the library functions and the canned text whose value the component only passes on.
  \<open>JSON_stringify v n\<close> is \<open>JSON.stringify(v, null, n)\<close>, and \<open>JSON.stringify(v)\<close> for
  \<open>n = 0\<close>; \<open>Number_toString n\<close> is the text of the double that the number \<open>n\<close> is
  read as.
\<close>

record generate_env =
  getConfig :: "js_error + string option"
  axios_get :: "string \<Rightarrow> headers \<Rightarrow> js_error + json"
  axios_post :: "json \<Rightarrow> payload \<Rightarrow> headers \<Rightarrow> js_error + json"
  encodeURIComponent :: "string \<Rightarrow> string"
  JSON_stringify :: "json \<Rightarrow> nat \<Rightarrow> string"
  Number_toString :: "string \<Rightarrow> string"
  default_generated_code :: string

fun join_comma :: "string list \<Rightarrow> string" where
  "join_comma [] = []"
| "join_comma [x] = x"
| "join_comma (x # y # zs) = x @ '','' @ join_comma (y # zs)"

fun ToString :: "(string \<Rightarrow> string) \<Rightarrow> json \<Rightarrow> string" where
  \<comment> \<open>the text of a value in a concatenation, in a template and as a property key;
      the first argument gives the text of a number\<close>
  "ToString num JNull = ''null''"
| "ToString num (JBool b) = (if b then ''true'' else ''false'')"
| "ToString num (JNumber n) = num n"
| "ToString num (JString s) = s"
| "ToString num (JArray xs) =
     join_comma (map (\<lambda>x. if x = JNull then [] else ToString num x) xs)"
| "ToString num (JObject kvs) = ''[object Object]''"

fun insert_index :: "nat \<Rightarrow> string \<Rightarrow> string \<Rightarrow> payload \<Rightarrow> payload" where
  \<comment> \<open>a new member whose key is the array index \<open>i\<close> goes among the index keys, which
      come first and in ascending order\<close>
  "insert_index i k v [] = [(k, v)]"
| "insert_index i k v ((k', v') # obj) =
     (case index_key k' of
        Some j \<Rightarrow> if j < i then (k', v') # insert_index i k v obj else (k, v) # (k', v') # obj
      | None \<Rightarrow> (k, v) # (k', v') # obj)"

definition obj_set :: "payload \<Rightarrow> string \<Rightarrow> string \<Rightarrow> payload" where
  \<comment> \<open>\<open>obj[k] = v\<close>, the members in the order in which the object lists them\<close>
  "obj_set obj k v =
     (if k \<in> set (map fst obj)
      then map (\<lambda>(k', v'). if k' = k then (k', v) else (k', v')) obj
      else case index_key k of
             Some i \<Rightarrow> insert_index i k v obj
           | None \<Rightarrow> obj @ [(k, v)])"

definition incorrect_format :: "generate_env \<Rightarrow> json \<Rightarrow> json" where
  "incorrect_format env data =
     JString (''Error: Receive incorrect format data'' @ [CHR 0x0D, CHR 0x0A] @
              JSON_stringify env data 4)"

definition emit_response :: "generate_env \<Rightarrow> addon \<Rightarrow> json \<Rightarrow> event" where
  \<comment> \<open>what the GET and the POST branch do with \<open>response.data\<close>\<close>
  "emit_response env a data =
     (if truthy data
      then (case read_prop data
                   (ToString (Number_toString env)
                      (first_truthy (responseField a) (JString ''data''))) of
              Some v \<Rightarrow>
                if truthy v then CodeGenerated v
                else CodeGenerated (incorrect_format env data)
            | None \<Rightarrow> CodeGenerated (incorrect_format env data))
      else CodeGenerated (incorrect_format env data))"

definition catch_log :: "event list \<times> js_error option \<Rightarrow> event list \<times> js_error option" where
  \<comment> \<open>\<open>try { ... } catch (err) { console.log(err) }\<close>: the block gives its events and
      the error it throws, if any; the handler logs the error and nothing is thrown on\<close>
  "catch_log r =
     (case r of
        (evs, Some err) \<Rightarrow> (evs @ [ConsoleLog err], None)
      | (evs, None) \<Rightarrow> (evs, None))"

definition get_branch :: "generate_env \<Rightarrow> addon \<Rightarrow> string \<Rightarrow> event list \<times> js_error option" where
  "get_branch env a prompt =
     (let url = ToString (Number_toString env) (endpointUrl a) @ ''?'' @
                ToString (Number_toString env)
                  (first_truthy (requestField a) (JString ''prompt'')) @ ''='' @
                encodeURIComponent env prompt;
          hdrs = [(''Authorization'', ToString (Number_toString env) (apiKey a)),
                  (''Content-Type'', ''application/json'')]
      in case axios_get env url hdrs of
           Inl err \<Rightarrow> ([HttpGet url hdrs], Some err)
         | Inr data \<Rightarrow> ([HttpGet url hdrs, emit_response env a data], None))"

definition post_branch :: "generate_env \<Rightarrow> addon \<Rightarrow> string \<Rightarrow> event list \<times> js_error option" where
  "post_branch env a prompt =
     (let body = obj_set [(''systemMessage'', or_default (samples a) [])]
                   (ToString (Number_toString env)
                      (first_truthy (requestField a) (JString ''prompt'')))
                   prompt;
          hdrs = [(''Authorization'', ToString (Number_toString env) (apiKey a)),
                  (''Content-Type'', ''application/json'')]
      in case axios_post env (endpointUrl a) body hdrs of
           Inl err \<Rightarrow> ([HttpPost (endpointUrl a) body hdrs], Some err)
         | Inr data \<Rightarrow> ([HttpPost (endpointUrl a) body hdrs, emit_response env a data], None))"

definition not_configured :: js_error where
  "not_configured =
     Error ''GENAI_SDV_APP_ENDPOINT is not configured. Please configure it in Site Management.''"

definition sdv_branch :: "generate_env \<Rightarrow> addon \<Rightarrow> string \<Rightarrow> event list \<times> js_error option" where
  \<comment> \<open>the block that uses the endpoint of the site configuration\<close>
  "sdv_branch env a prompt =
     (case getConfig env of
        Inl err \<Rightarrow> ([GetConfig ''GENAI_SDV_APP_ENDPOINT'' ''site''], Some err)
      | Inr config \<Rightarrow>
          if or_default config [] = []
          then ([GetConfig ''GENAI_SDV_APP_ENDPOINT'' ''site''], Some not_configured)
          else
            (let url = JString (or_default config []);
                 body = [(''systemMessage'', or_default (samples a) []), (''message'', prompt)];
                 hdrs = [(''Content-Type'', ''application/json'')]
             in case axios_post env url body hdrs of
                  Inl err \<Rightarrow>
                    ([GetConfig ''GENAI_SDV_APP_ENDPOINT'' ''site'', HttpPost url body hdrs],
                     Some err)
                | Inr data \<Rightarrow>
                    if data = JNull
                    then ([GetConfig ''GENAI_SDV_APP_ENDPOINT'' ''site'', HttpPost url body hdrs],
                          Some (TypeError ''Cannot read properties of null''))
                    else ([GetConfig ''GENAI_SDV_APP_ENDPOINT'' ''site'', HttpPost url body hdrs,
                           CodeGenerated
                             (first_truthy (read_prop data ''content'')
                                (first_truthy (read_prop data ''data'')
                                   (JString (JSON_stringify env data 0))))],
                          None)))"

definition method_key :: "addon \<Rightarrow> js_error + string option" where
  \<comment> \<open>\<open>selectedAddOn.method?.toLowerCase().trim()\<close>: \<open>undefined\<close> for a method that is
      \<open>undefined\<close> or \<open>null\<close>, the text for a string, and a \<open>TypeError\<close> for any other
      value, which has no \<open>toLowerCase\<close>\<close>
  "method_key a =
     (case http_method a of
        None \<Rightarrow> Inr None
      | Some JNull \<Rightarrow> Inr None
      | Some (JString m) \<Rightarrow> Inr (Some (trim (toLowerCase m)))
      | Some v \<Rightarrow> Inl (TypeError ''selectedAddOn.method?.toLowerCase is not a function''))"

definition try_block :: "generate_env \<Rightarrow> addon \<Rightarrow> string \<Rightarrow> event list \<times> js_error option" where
  \<comment> \<open>the outer \<open>try\<close> block: its events and the error that leaves it, if any. The
      \<open>switch\<close> expression is evaluated outside the handlers of the branches.\<close>
  "try_block env selectedAddOn prompt =
     (if isMock selectedAddOn
      then ([Timeout 1000, CodeGenerated (JString (default_generated_code env))], None)
      else if truthy (endpointUrl selectedAddOn) \<and> addon_name selectedAddOn \<noteq> ''SDV Copilot''
      then (case method_key selectedAddOn of
              Inl err \<Rightarrow> ([], Some err)
            | Inr m \<Rightarrow>
                if m = Some ''get'' then catch_log (get_branch env selectedAddOn prompt)
                else if m = Some ''post'' then catch_log (post_branch env selectedAddOn prompt)
                else ([], None))
      else catch_log (sdv_branch env selectedAddOn prompt))"

definition catch_block :: "js_error \<Rightarrow> event list" where
  \<comment> \<open>the outer handler\<close>
  "catch_block error =
     [ConsoleErrorGenerating error,
      ToastError
        (case error of
           AxiosError (Some message) \<Rightarrow>
             if message = [] then ''Error generating AI content'' else message
         | _ \<Rightarrow> ''Error generating AI content'')]"

definition handleGenerate :: "generate_env \<Rightarrow> addon option \<Rightarrow> string \<Rightarrow> event list" where
  "handleGenerate env selectedAddOn prompt =
     (case selectedAddOn of
        None \<Rightarrow> []
      | Some a \<Rightarrow>
          [CodeGenerated (JString []), SetLoading True, LoadingChange True] @
          (case try_block env a prompt of
             (evs, None) \<Rightarrow> evs
           | (evs, Some error) \<Rightarrow> evs @ catch_block error) @
          [SetLoading False, LoadingChange False, FinishChange True])"

text \<open>
  Modelled from the spec: the consumer of the callback \<open>onCodeGenerated\<close> is not among the
  sources; it keeps the last text the callback was given.
\<close>

fun consumer_buffer :: "json \<Rightarrow> event list \<Rightarrow> json" where
  "consumer_buffer b [] = b"
| "consumer_buffer b (CodeGenerated v # evs) = consumer_buffer v evs"
| "consumer_buffer b (e # evs) = consumer_buffer b evs"

definition is_http :: "event \<Rightarrow> bool" where
  "is_http e = (case e of HttpGet u h \<Rightarrow> True | HttpPost u b h \<Rightarrow> True | _ \<Rightarrow> False)"

definition is_toast :: "event \<Rightarrow> bool" where
  "is_toast e = (case e of ToastError m \<Rightarrow> True | _ \<Rightarrow> False)"

definition is_code :: "event \<Rightarrow> bool" where
  "is_code e = (case e of CodeGenerated v \<Rightarrow> True | _ \<Rightarrow> False)"

definition quoted :: "string \<Rightarrow> string" where
  \<comment> \<open>a text between double quotes, for writing JSON texts\<close>
  "quoted s = CHR 0x22 # s @ [CHR 0x22]"

definition updates_of :: "save_event list \<Rightarrow> (string \<times> string) list" where
  \<comment> \<open>the writes to the remote store among the events: document id and text\<close>
  "updates_of evs =
     concat (map (\<lambda>e. case e of UpdatePrototype i t \<Rightarrow> [(i, t)] | ConsoleError err \<Rightarrow> []) evs)"

section \<open>The lexer terminates\<close>

lemma lex_string_length:
  "lex_string m acc cs = Some (s, rest) \<Longrightarrow> length rest \<le> length cs"
  by (induction m acc cs rule: lex_string.induct) (auto split: if_splits)

termination lex
  by (relation "measure length")
     (auto simp: length_dropWhile_le less_Suc_eq_le dest: lex_string_length)

section \<open>Texts of white space do not parse\<close>

lemma trim_Nil_iff: "trim s = [] \<longleftrightarrow> (\<forall>c\<in>set s. is_js_whitespace c)"
proof
  assume "trim s = []"
  then have "dropWhile is_js_whitespace (rev (dropWhile is_js_whitespace s)) = []"
    by (simp add: trim_def)
  then have all: "\<forall>c\<in>set (dropWhile is_js_whitespace s). is_js_whitespace c"
    by simp
  have "dropWhile is_js_whitespace s = []"
  proof (cases "dropWhile is_js_whitespace s")
    case Nil
    then show ?thesis .
  next
    case (Cons c cs)
    then have "\<not> is_js_whitespace c"
      using hd_dropWhile[of is_js_whitespace s] by simp
    with all Cons show ?thesis by simp
  qed
  then show "\<forall>c\<in>set s. is_js_whitespace c"
    by simp
next
  assume "\<forall>c\<in>set s. is_js_whitespace c"
  then show "trim s = []"
    by (auto simp: trim_def dest: set_dropWhileD)
qed

lemma lex_not_json_ws:
  "c = CHR 0x0B \<or> c = CHR 0x0C \<or> c = CHR 0xA0 \<Longrightarrow> lex (c # cs) = None"
  by (elim disjE) (simp_all add: is_json_ws_def is_digit_def)

lemma lex_json_ws: "is_json_ws c \<Longrightarrow> lex (c # cs) = lex cs"
  by simp

lemma js_whitespace_cases:
  "is_js_whitespace c \<Longrightarrow> is_json_ws c \<or> c = CHR 0x0B \<or> c = CHR 0x0C \<or> c = CHR 0xA0"
  by (auto simp: is_js_whitespace_def is_json_ws_def)

lemma lex_whitespace:
  "\<forall>c\<in>set s. is_js_whitespace c \<Longrightarrow> lex s = None \<or> lex s = Some []"
proof (induction s)
  case Nil
  then show ?case by simp
next
  case (Cons c cs)
  then have "is_js_whitespace c" by simp
  then consider "is_json_ws c" | "c = CHR 0x0B \<or> c = CHR 0x0C \<or> c = CHR 0xA0"
    using js_whitespace_cases by blast
  then show ?case
  proof cases
    case 1
    with Cons show ?thesis by (simp only: lex_json_ws) simp
  next
    case 2
    then have "lex (c # cs) = None" by (rule lex_not_json_ws)
    then show ?thesis by simp
  qed
qed

lemma JSON_parse_whitespace: "trim s = [] \<Longrightarrow> JSON_parse s = None"
  using lex_whitespace[of s] by (auto simp: trim_Nil_iff JSON_parse_def)

lemma getEditorType_eq:
  "getEditorType content =
     (case JSON_parse content of Some (JArray xs) \<Rightarrow> EdProject | _ \<Rightarrow> EdCode)"
proof (cases "content = [] \<or> trim content = []")
  case True
  then have "trim content = []" by (auto simp: trim_def)
  then have "JSON_parse content = None" by (rule JSON_parse_whitespace)
  with True show ?thesis by (simp add: getEditorType_def)
next
  case False
  then show ?thesis by (simp add: getEditorType_def)
qed

lemma JSON_parse_empty_array: "JSON_parse ''[]'' = Some (JArray [])"
  by (simp add: JSON_parse_def is_json_ws_def is_digit_def)

lemma JSON_parse_print: "JSON_parse ''print(1)'' = None"
  by (simp add: JSON_parse_def is_json_ws_def is_digit_def)

section \<open>Facts about the helper functions\<close>

lemma starts_with_prefix: "starts_with p s \<longleftrightarrow> prefix p s"
  by (induction p s rule: starts_with.induct) auto

lemma includes_str_sublist: "includes_str s sub \<longleftrightarrow> sublist sub s"
  by (induction s) (auto simp: starts_with_prefix sublist_Cons_right)

lemma lower_sdv_copilot_pro: "toLowerCase ''SDV-Copilot Pro'' = ''sdv-copilot pro''"
  by code_simp

lemma lower_trim_put: "trim (toLowerCase ''PUT'') = ''put''"
  by code_simp

lemma JSON_parse_not_json: "JSON_parse ''not json'' = None"
  by (simp add: JSON_parse_def is_json_ws_def is_digit_def)

lemma mergedBuiltInAddOns_ids:
  "map addon_id (mergedBuiltInAddOns bs mk) = map addon_id bs"
  by (auto simp: mergedBuiltInAddOns_def split: option.splits dest: find_Some_iff[THEN iffD1])

lemma load_userAIAddons_python:
  "userAIAddons (load_userAIAddons draws GenAI_Python (Some as) st) =
     map (\<lambda>(i, asset). asset_addon (draws i) asset)
       (enumerate 0 (filter (\<lambda>asset. asset_type asset = ''GENAI-PYTHON'') as))"
  by (simp add: load_userAIAddons_def Let_def)

lemma asset_config_unparseable:
  "JSON_parse (to_string (asset_data a)) = None \<Longrightarrow>
   asset_config a = (JString [], JString [], JString ''POST'', JString [], JString [])"
  by (simp add: asset_config_def)

lemma asset_addon_id:
  "addon_id (asset_addon r a) = to_string (asset_name a) @ ''-'' @ substring 2 8 r"
  by (simp add: asset_addon_def split: prod.splits)

lemma handleGenerate_Some:
  "handleGenerate env (Some a) prompt =
     CodeGenerated (JString []) #
     ([SetLoading True, LoadingChange True] @
      (case try_block env a prompt of
         (evs, None) \<Rightarrow> evs
       | (evs, Some error) \<Rightarrow> evs @ catch_block error) @
      [SetLoading False, LoadingChange False, FinishChange True])"
  by (simp add: handleGenerate_def)

lemma try_block_throws:
  "snd (try_block env a prompt) \<noteq> None \<longleftrightarrow>
     \<not> isMock a \<and> truthy (endpointUrl a) \<and> addon_name a \<noteq> ''SDV Copilot'' \<and>
     (\<exists>err. method_key a = Inl err)"
  by (auto simp: try_block_def catch_log_def split: option.splits prod.splits sum.splits)

lemma non_string_method_trace:
  assumes "\<not> isMock a" and "truthy (endpointUrl a)" and "addon_name a \<noteq> ''SDV Copilot''"
    and "method_key a = Inl err"
  shows "handleGenerate env (Some a) prompt =
           [CodeGenerated (JString []), SetLoading True, LoadingChange True] @
           catch_block err @
           [SetLoading False, LoadingChange False, FinishChange True]"
  using assms by (simp add: handleGenerate_def try_block_def)

lemma unconfigured_fallback_trace:
  assumes "\<not> isMock a" and "\<not> truthy (endpointUrl a) \<or> addon_name a = ''SDV Copilot''"
    and "getConfig env = Inr config" and "config = None \<or> config = Some []"
  shows "handleGenerate env (Some a) prompt =
           [CodeGenerated (JString []), SetLoading True, LoadingChange True,
            GetConfig ''GENAI_SDV_APP_ENDPOINT'' ''site'', ConsoleLog not_configured,
            SetLoading False, LoadingChange False, FinishChange True]"
proof -
  from assms(4) have "or_default config [] = []"
    by (auto simp: or_default_def)
  with assms(3) have "sdv_branch env a prompt =
      ([GetConfig ''GENAI_SDV_APP_ENDPOINT'' ''site''], Some not_configured)"
    by (simp add: sdv_branch_def)
  with assms(1,2) have "try_block env a prompt =
      ([GetConfig ''GENAI_SDV_APP_ENDPOINT'' ''site'', ConsoleLog not_configured], None)"
    by (auto simp: try_block_def catch_log_def)
  then show ?thesis by (simp add: handleGenerate_def)
qed

lemma filtered_membership:
  assumes "m \<in> set ms"
  shows "m \<in> set (filteredMarketplaceAddOns (Some ms) B) \<longleftrightarrow>
      \<not> (addon_id m \<in> addon_id ` set B) \<and>
      \<not> (toLowerCase (addon_name m) \<in> (\<lambda>b. toLowerCase (addon_name b)) ` set B) \<and>
      \<not> (includes_str (toLowerCase (addon_name m)) ''sdv copilot'' \<or>
         includes_str (toLowerCase (addon_name m)) ''sdv-copilot'')"
  using assms by (simp add: filteredMarketplaceAddOns_def Let_def)

lemma mergedBuiltInAddOns_names:
  "map addon_name (mergedBuiltInAddOns bs (Some ms)) =
     map (\<lambda>b. case find (\<lambda>x. addon_id x = addon_id b) ms of
                 Some x \<Rightarrow> addon_name x
               | None \<Rightarrow> addon_name b) bs"
  by (auto simp: mergedBuiltInAddOns_def split: option.splits)

lemma consumer_buffer_keeps:
  "\<not> list_ex is_code evs \<Longrightarrow> consumer_buffer b evs = b"
  by (induction b evs rule: consumer_buffer.induct) (simp_all add: is_code_def)

lemma unsupported_method_try_block:
  assumes "\<not> isMock a" and "truthy (endpointUrl a)" and "addon_name a \<noteq> ''SDV Copilot''"
    and "method_key a = Inr m" and "m \<noteq> Some ''get''" and "m \<noteq> Some ''post''"
  shows "try_block env a prompt = ([], None)"
  using assms by (simp add: try_block_def)

lemma no_write_without_document:
  assumes "prototype s = None \<or> (\<exists>p. prototype s = Some p \<and> proto_id p = [])"
  shows "saveCodeToDb updatePrototypeService codeToSave s = (s, [])"
  using assms by (auto simp: saveCodeToDb_def split: option.splits)

lemma save_then_effect:
  assumes "saveCodeToDb updatePrototypeService codeToSave s = (s', [UpdatePrototype i t])"
  shows "code (on_prototype_change s') = code s' \<and>
         savedCode (on_prototype_change s') = savedCode s'"
  using assms
  by (auto simp: saveCodeToDb_def on_prototype_change_def or_default_def Let_def
      split: option.splits if_splits)

section \<open>The claims\<close>

text \<open>
  C1. While a document with an id is open and \<open>saveCodeToDb\<close> has a text to write: if
  the update of the remote store succeeds, then afterwards \<open>code\<close> and \<open>savedCode\<close> both
  hold the text and the active prototype has the text in its \<open>code\<close> field, its other
  fields unchanged; if the update fails, the session is what it was before the call. In
  both cases the one write sent to the store is this text under the id of the document.
\<close>

theorem persist_updates_state_only_on_success:
  assumes "prototype s = Some p" and "proto_id p \<noteq> []"
    and "dataToSave codeToSave s = Some text"
  shows "(updatePrototypeService (proto_id p) text = None \<longrightarrow>
            fst (saveCodeToDb updatePrototypeService codeToSave s) =
              s\<lparr>code := Some text, savedCode := Some text,
                 prototype := Some (p\<lparr>proto_code := Some text\<rparr>)\<rparr>) \<and>
         (updatePrototypeService (proto_id p) text \<noteq> None \<longrightarrow>
            fst (saveCodeToDb updatePrototypeService codeToSave s) = s) \<and>
         updates_of (snd (saveCodeToDb updatePrototypeService codeToSave s)) =
           [(proto_id p, text)]"
proof -
  from assms(3) have "text \<noteq> []"
    by (auto simp: dataToSave_def split: option.splits if_splits)
  then have od: "or_default (Some text) [] = text"
    by (simp add: or_default_def)
  show ?thesis
    using assms od by (auto simp: saveCodeToDb_def updates_of_def split: option.splits)
qed

text \<open>
  An edited text \<open>ab\<close> over the saved text \<open>a\<close>: a heartbeat whose update succeeds
  moves all three copies to \<open>ab\<close>; one whose update fails leaves the session as it was.
\<close>

theorem persist_updates_state_only_on_success_witness:
  "fst (saveCodeToDb (\<lambda>i t. None) None
      \<lparr>prototype = Some \<lparr>proto_id = ''p1'', proto_code = Some ''a'', proto_name = ''n'', proto_language = None\<rparr>,
         code = Some ''ab'', savedCode = Some ''a'', editorType = EdCode\<rparr>) =
     \<lparr>prototype = Some \<lparr>proto_id = ''p1'', proto_code = Some ''ab'', proto_name = ''n'', proto_language = None\<rparr>,
      code = Some ''ab'', savedCode = Some ''ab'', editorType = EdCode\<rparr> \<and>
   fst (saveCodeToDb (\<lambda>i t. Some (Error ''offline'')) None
      \<lparr>prototype = Some \<lparr>proto_id = ''p1'', proto_code = Some ''a'', proto_name = ''n'', proto_language = None\<rparr>,
         code = Some ''ab'', savedCode = Some ''a'', editorType = EdCode\<rparr>) =
     \<lparr>prototype = Some \<lparr>proto_id = ''p1'', proto_code = Some ''a'', proto_name = ''n'', proto_language = None\<rparr>,
         code = Some ''ab'', savedCode = Some ''a'', editorType = EdCode\<rparr>"
  using persist_updates_state_only_on_success[of
      "\<lparr>prototype = Some \<lparr>proto_id = ''p1'', proto_code = Some ''a'', proto_name = ''n'', proto_language = None\<rparr>,
         code = Some ''ab'', savedCode = Some ''a'', editorType = EdCode\<rparr>"
      "\<lparr>proto_id = ''p1'', proto_code = Some ''a'', proto_name = ''n'', proto_language = None\<rparr>"
      None "''ab''" "\<lambda>i t. None"]
    persist_updates_state_only_on_success[of
      "\<lparr>prototype = Some \<lparr>proto_id = ''p1'', proto_code = Some ''a'', proto_name = ''n'', proto_language = None\<rparr>,
         code = Some ''ab'', savedCode = Some ''a'', editorType = EdCode\<rparr>"
      "\<lparr>proto_id = ''p1'', proto_code = Some ''a'', proto_name = ''n'', proto_language = None\<rparr>"
      None "''ab''" "\<lambda>i t. Some (Error ''offline'')"]
  by (simp add: dataToSave_def)

text \<open>
  C2, as the code has it. For a built-in generator and the first marketplace generator
  with the same id, the merged entry has every field of the marketplace generator but
  \<open>customPayload\<close>, and its \<open>customPayload\<close> is always the one of the built-in generator
  (the default \<open>{ prompt }\<close> when the built-in has none), whether the marketplace generator
  has one of its own or not.
\<close>

theorem merged_entry:
  assumes "i < length bs"
    and "find (\<lambda>m. addon_id m = addon_id (bs ! i)) ms = Some m"
  shows "mergedBuiltInAddOns bs (Some ms) ! i =
           m\<lparr>customPayload :=
               Some (case customPayload (bs ! i) of Some f \<Rightarrow> f | None \<Rightarrow> default_payload)\<rparr>"
  using assms by (simp add: mergedBuiltInAddOns_def)

text \<open>
  The statement that the merged entry has the \<open>customPayload\<close> of the marketplace
  generator when that one has its own fails: a marketplace generator with the id of the
  built-in one builds \<open>{ message }\<close>, and the merged entry builds \<open>{ prompt }\<close>.
\<close>

theorem merged_entry_counterexample:
  "map_option (\<lambda>f. f ''hi'')
     (customPayload (hd (mergedBuiltInAddOns [sdv_copilot []]
        (Some [(sdv_copilot ''https://market'')\<lparr>customPayload := Some (\<lambda>prompt. [(''message'', prompt)])\<rparr>])))) =
     Some [(''prompt'', ''hi'')] \<and>
   map_option (\<lambda>f. f ''hi'')
     (customPayload ((sdv_copilot ''https://market'')\<lparr>customPayload := Some (\<lambda>prompt. [(''message'', prompt)])\<rparr>)) =
     Some [(''message'', ''hi'')]"
  by (simp add: mergedBuiltInAddOns_def sdv_copilot_def default_payload_def)

theorem merged_entry_witness:
  "mergedBuiltInAddOns [sdv_copilot []]
        (Some [(sdv_copilot ''https://market'')\<lparr>customPayload := Some (\<lambda>prompt. [(''message'', prompt)])\<rparr>]) ! 0 =
   sdv_copilot ''https://market''"
  using merged_entry[of 0 "[sdv_copilot []]"
      "[(sdv_copilot ''https://market'')\<lparr>customPayload := Some (\<lambda>prompt. [(''message'', prompt)])\<rparr>]"
      "(sdv_copilot ''https://market'')\<lparr>customPayload := Some (\<lambda>prompt. [(''message'', prompt)])\<rparr>"]
  by (simp add: sdv_copilot_def)

text \<open>
  C3. In a session with an open document that has an id: a heartbeat writes to the remote
  store exactly when \<open>code\<close> is a non-empty text that differs from \<open>savedCode\<close>, and then
  it writes that text; an explicit save with a non-empty text always writes that text,
  also when it equals \<open>savedCode\<close>; an explicit save with the empty text writes nothing.
\<close>

theorem save_triggers:
  assumes "prototype s = Some p" and "proto_id p \<noteq> []"
  shows "updates_of (snd (heartbeat updatePrototypeService s)) =
           (case code s of
              Some t \<Rightarrow> if t \<noteq> [] \<and> code s \<noteq> savedCode s then [(proto_id p, t)] else []
            | None \<Rightarrow> []) \<and>
         (text \<noteq> [] \<longrightarrow>
            updates_of (snd (onSave updatePrototypeService text s)) = [(proto_id p, text)]) \<and>
         updates_of (snd (onSave updatePrototypeService [] s)) = []"
  using assms
  by (auto simp: heartbeat_def onSave_def saveCodeToDb_def dataToSave_def updates_of_def
      or_default_def split: option.splits)

text \<open>
  With nothing edited (\<open>code = savedCode = a\<close>) the explicit save of \<open>a\<close> still writes,
  and the heartbeat does not.
\<close>

theorem save_triggers_witness:
  "updates_of (snd (onSave (\<lambda>i t. None) ''a''
      \<lparr>prototype = Some \<lparr>proto_id = ''p1'', proto_code = Some ''a'', proto_name = ''n'', proto_language = None\<rparr>,
         code = Some ''a'', savedCode = Some ''a'', editorType = EdCode\<rparr>)) = [(''p1'', ''a'')] \<and>
   updates_of (snd (heartbeat (\<lambda>i t. None)
      \<lparr>prototype = Some \<lparr>proto_id = ''p1'', proto_code = Some ''a'', proto_name = ''n'', proto_language = None\<rparr>,
         code = Some ''a'', savedCode = Some ''a'', editorType = EdCode\<rparr>)) = []"
  using save_triggers[of
      "\<lparr>prototype = Some \<lparr>proto_id = ''p1'', proto_code = Some ''a'', proto_name = ''n'', proto_language = None\<rparr>,
         code = Some ''a'', savedCode = Some ''a'', editorType = EdCode\<rparr>"
      "\<lparr>proto_id = ''p1'', proto_code = Some ''a'', proto_name = ''n'', proto_language = None\<rparr>"
      "\<lambda>i t. None" "''a''"]
  by simp

text \<open>
  C4. The built-in generator has no endpoint of its own, and here the site configuration
  gives none either. The call sends no request and throws the error \<open>not configured\<close>,
  whose message is addressed to the user; the handler of the block catches it and
  writes it to the console, so the handler of \<open>handleGenerate\<close>, the one that raises the
  toast, is not reached. The user is shown nothing: the callback gets the empty text
  only, and the call ends with \<open>finished\<close>.
\<close>

theorem unconfigured_error_not_shown:
  "handleGenerate
          \<lparr>getConfig = Inr (Some []), axios_get = (\<lambda>u h. Inr JNull),
         axios_post = (\<lambda>u b h. Inr JNull), encodeURIComponent = (\<lambda>s. s),
         JSON_stringify = (\<lambda>v n. []), Number_toString = (\<lambda>n. n),
         default_generated_code = ''pass''\<rparr>
          (Some (sdv_copilot [])) ''hi'' =
     [CodeGenerated (JString []), SetLoading True, LoadingChange True,
      GetConfig ''GENAI_SDV_APP_ENDPOINT'' ''site'', ConsoleLog not_configured,
      SetLoading False, LoadingChange False, FinishChange True]"
  using unconfigured_fallback_trace[of "sdv_copilot []"
          "\<lparr>getConfig = Inr (Some []), axios_get = (\<lambda>u h. Inr JNull),
         axios_post = (\<lambda>u b h. Inr JNull), encodeURIComponent = (\<lambda>s. s),
         JSON_stringify = (\<lambda>v n. []), Number_toString = (\<lambda>n. n),
         default_generated_code = ''pass''\<rparr>"
          "Some []" "''hi''"]
  by (simp add: sdv_copilot_def)

text \<open>
  C5. The content mode is a function of the text alone. It is the project mode exactly
  when \<open>JSON.parse\<close> accepts the text and gives an array, and the code mode otherwise:
  when the text does not parse, when it parses to a value that is no array, and for the
  empty text. The text \<open>[]\<close> is a project; the empty text and \<open>print(1)\<close> are code.
\<close>

theorem getEditorType_classifies:
  "(getEditorType content = EdProject \<longleftrightarrow> (\<exists>xs. JSON_parse content = Some (JArray xs))) \<and>
   (getEditorType content = EdCode \<longleftrightarrow> (\<nexists>xs. JSON_parse content = Some (JArray xs))) \<and>
   getEditorType ''[]'' = EdProject \<and>
   getEditorType [] = EdCode \<and>
   getEditorType ''print(1)'' = EdCode"
proof -
  have a: "getEditorType content = EdProject \<longleftrightarrow> (\<exists>xs. JSON_parse content = Some (JArray xs))"
    by (simp add: getEditorType_eq split: option.splits json.splits)
  have b: "getEditorType content = EdCode \<longleftrightarrow> (\<nexists>xs. JSON_parse content = Some (JArray xs))"
    by (simp add: getEditorType_eq split: option.splits json.splits)
  have c: "getEditorType ''[]'' = EdProject"
    by (simp add: getEditorType_eq JSON_parse_empty_array)
  have d: "getEditorType [] = EdCode"
    by (simp add: getEditorType_def)
  have e: "getEditorType ''print(1)'' = EdCode"
    by (simp add: getEditorType_eq JSON_parse_print)
  from a b c d e show ?thesis by blast
qed

theorem getEditorType_classifies_witness:
  "getEditorType ''[[]]'' = EdProject \<and> getEditorType ''{}'' = EdCode \<and>
   getEditorType ''[1,'' = EdCode"
proof -
  have p1: "JSON_parse ''[[]]'' = Some (JArray [JArray []])"
    by (simp add: JSON_parse_def is_json_ws_def is_digit_def)
  have p2: "JSON_parse ''{}'' = Some (JObject [])"
    by (simp add: JSON_parse_def is_json_ws_def is_digit_def)
  have p3: "JSON_parse ''[1,'' = None"
    by (simp add: JSON_parse_def is_json_ws_def is_digit_def is_num_char_def
        valid_number_def valid_int_def valid_frac_def)
  show ?thesis
    using getEditorType_classifies[of "''[[]]''"] getEditorType_classifies[of "''{}''"]
      getEditorType_classifies[of "''[1,''"] p1 p2 p3
    by simp
qed

text \<open>
  C6, as the code has it. The catalog of the user's generators has one descriptor for
  every asset of type \<open>GENAI-PYTHON\<close>, whatever its configuration text. For an asset whose
  configuration text does not parse, the descriptor has the method \<open>POST\<close>, and its
  request field name, its response field name, its endpoint and its key are the empty
  text.
\<close>

theorem unparseable_asset_descriptor:
  assumes "i < length (filter (\<lambda>asset. asset_type asset = ''GENAI-PYTHON'') as)"
    and "JSON_parse (to_string (asset_data
           (filter (\<lambda>asset. asset_type asset = ''GENAI-PYTHON'') as ! i))) = None"
  shows "length (userAIAddons (load_userAIAddons draws GenAI_Python (Some as) st)) =
           length (filter (\<lambda>asset. asset_type asset = ''GENAI-PYTHON'') as) \<and>
         http_method (userAIAddons (load_userAIAddons draws GenAI_Python (Some as) st) ! i) =
           Some (JString ''POST'') \<and>
         requestField (userAIAddons (load_userAIAddons draws GenAI_Python (Some as) st) ! i) =
           Some (JString []) \<and>
         responseField (userAIAddons (load_userAIAddons draws GenAI_Python (Some as) st) ! i) =
           Some (JString []) \<and>
         endpointUrl (userAIAddons (load_userAIAddons draws GenAI_Python (Some as) st) ! i) =
           JString [] \<and>
         apiKey (userAIAddons (load_userAIAddons draws GenAI_Python (Some as) st) ! i) =
           JString []"
  using assms
  by (simp add: load_userAIAddons_python nth_enumerate_eq asset_addon_def
      asset_config_unparseable)

text \<open>
  The statement that the field names of such a descriptor are \<open>prompt\<close> and \<open>data\<close>
  fails: for the configuration text \<open>not json\<close> they are empty.
\<close>

theorem unparseable_asset_descriptor_counterexample:
  "JSON_parse ''not json'' = None \<and>
   requestField (asset_addon ''0.abcdefghij''
     \<lparr>asset_type = ''GENAI-PYTHON'', asset_name = Some ''mine'', asset_data = Some ''not json''\<rparr>) = Some (JString []) \<and>
   responseField (asset_addon ''0.abcdefghij''
     \<lparr>asset_type = ''GENAI-PYTHON'', asset_name = Some ''mine'', asset_data = Some ''not json''\<rparr>) = Some (JString [])"
  by (simp add: JSON_parse_not_json asset_addon_def asset_config_def to_string_def)

theorem unparseable_asset_descriptor_witness:
  "map http_method (userAIAddons (load_userAIAddons (\<lambda>i. ''0.abcdefghij'') GenAI_Python
     (Some [\<lparr>asset_type = ''GENAI-PYTHON'', asset_name = Some ''mine'', asset_data = Some ''not json''\<rparr>])
     \<lparr>userAIAddons = [], hasGenAIAssets = False\<rparr>)) = [Some (JString ''POST'')] \<and>
   map requestField (userAIAddons (load_userAIAddons (\<lambda>i. ''0.abcdefghij'') GenAI_Python
     (Some [\<lparr>asset_type = ''GENAI-PYTHON'', asset_name = Some ''mine'', asset_data = Some ''not json''\<rparr>])
     \<lparr>userAIAddons = [], hasGenAIAssets = False\<rparr>)) = [Some (JString [])]"
  using unparseable_asset_descriptor[of 0
     "[\<lparr>asset_type = ''GENAI-PYTHON'', asset_name = Some ''mine'', asset_data = Some ''not json''\<rparr>]"
     "\<lambda>i. ''0.abcdefghij''" "\<lparr>userAIAddons = [], hasGenAIAssets = False\<rparr>"]
  by (simp add: JSON_parse_not_json to_string_def load_userAIAddons_python asset_addon_def
      asset_config_def)

text \<open>
  C7, as the code has it. When the selected generator is no mock, has an endpoint and a
  name other than \<open>SDV Copilot\<close>, and its method is absent or is a string that, in lower
  case and trimmed, is neither \<open>get\<close> nor \<open>post\<close>: no request is sent, the callback
  \<open>onCodeGenerated\<close> gets nothing after the empty text that starts every call, no error
  is reported, and \<open>finished\<close> is reported once.
\<close>

theorem unsupported_method_noop:
  assumes "\<not> isMock a" and "truthy (endpointUrl a)" and "addon_name a \<noteq> ''SDV Copilot''"
    and "method_key a = Inr m" and "m \<noteq> Some ''get''" and "m \<noteq> Some ''post''"
  shows "handleGenerate env (Some a) prompt =
           [CodeGenerated (JString []), SetLoading True, LoadingChange True,
            SetLoading False, LoadingChange False, FinishChange True]"
  using unsupported_method_try_block[OF assms] by (simp add: handleGenerate_def)

text \<open>
  For a method that is no string the statement fails. The configuration
  \<open>{"url":"https://e","method":5}\<close> of a user's asset gives a generator with the method
  \<open>5\<close>, which is neither GET nor POST; the call to \<open>toLowerCase\<close> throws outside the
  handlers of the branches, and the handler of \<open>handleGenerate\<close> reports the error on
  the console and with a toast.
\<close>

theorem unsupported_method_noop_counterexample:
  "\<not> isMock (asset_addon ''0.i''
              \<lparr>asset_type = ''GENAI-PYTHON'', asset_name = Some ''mine'',
               asset_data = Some (''{'' @ quoted ''url'' @ '':'' @ quoted ''https://e'' @ '','' @
                                  quoted ''method'' @ '':5}'')\<rparr>) \<and>
   addon_name (asset_addon ''0.i''
              \<lparr>asset_type = ''GENAI-PYTHON'', asset_name = Some ''mine'',
               asset_data = Some (''{'' @ quoted ''url'' @ '':'' @ quoted ''https://e'' @ '','' @
                                  quoted ''method'' @ '':5}'')\<rparr>) = ''mine'' \<and>
   endpointUrl (asset_addon ''0.i''
              \<lparr>asset_type = ''GENAI-PYTHON'', asset_name = Some ''mine'',
               asset_data = Some (''{'' @ quoted ''url'' @ '':'' @ quoted ''https://e'' @ '','' @
                                  quoted ''method'' @ '':5}'')\<rparr>) = JString ''https://e'' \<and>
   http_method (asset_addon ''0.i''
              \<lparr>asset_type = ''GENAI-PYTHON'', asset_name = Some ''mine'',
               asset_data = Some (''{'' @ quoted ''url'' @ '':'' @ quoted ''https://e'' @ '','' @
                                  quoted ''method'' @ '':5}'')\<rparr>) = Some (JNumber ''5'') \<and>
   handleGenerate
          \<lparr>getConfig = Inr (Some []), axios_get = (\<lambda>u h. Inr JNull),
         axios_post = (\<lambda>u b h. Inr JNull), encodeURIComponent = (\<lambda>s. s),
         JSON_stringify = (\<lambda>v n. []), Number_toString = (\<lambda>n. n),
         default_generated_code = ''pass''\<rparr>
          (Some (asset_addon ''0.i''
              \<lparr>asset_type = ''GENAI-PYTHON'', asset_name = Some ''mine'',
               asset_data = Some (''{'' @ quoted ''url'' @ '':'' @ quoted ''https://e'' @ '','' @
                                  quoted ''method'' @ '':5}'')\<rparr>)) ''hi'' =
     [CodeGenerated (JString []), SetLoading True, LoadingChange True,
      ConsoleErrorGenerating (TypeError ''selectedAddOn.method?.toLowerCase is not a function''),
      ToastError ''Error generating AI content'',
      SetLoading False, LoadingChange False, FinishChange True]"
  by code_simp

theorem unsupported_method_noop_witness:
  "handleGenerate
          \<lparr>getConfig = Inr (Some []), axios_get = (\<lambda>u h. Inr JNull),
         axios_post = (\<lambda>u b h. Inr JNull), encodeURIComponent = (\<lambda>s. s),
         JSON_stringify = (\<lambda>v n. []), Number_toString = (\<lambda>n. n),
         default_generated_code = ''pass''\<rparr>
          (Some ((sdv_copilot ''https://e'')\<lparr>addon_name := ''Mine'', http_method := Some (JString ''PUT'')\<rparr>)) ''hi'' =
     [CodeGenerated (JString []), SetLoading True, LoadingChange True,
      SetLoading False, LoadingChange False, FinishChange True]"
  using unsupported_method_noop[of "(sdv_copilot ''https://e'')\<lparr>addon_name := ''Mine'', http_method := Some (JString ''PUT'')\<rparr>"
          "Some ''put''"
          "\<lparr>getConfig = Inr (Some []), axios_get = (\<lambda>u h. Inr JNull),
         axios_post = (\<lambda>u b h. Inr JNull), encodeURIComponent = (\<lambda>s. s),
         JSON_stringify = (\<lambda>v n. []), Number_toString = (\<lambda>n. n),
         default_generated_code = ''pass''\<rparr>" "''hi''"]
  by (simp add: sdv_copilot_def method_key_def lower_trim_put)

text \<open>
  C8, as the code has it. The filter takes ids and names from the merged built-in list,
  in which a built-in generator is replaced by the first marketplace generator with its
  id. A marketplace generator \<open>m\<close> is left out of the visible marketplace list exactly
  when its id is the id of a built-in generator, or its name in lower case is the
  lower-case name of an entry of the merged list (the name of the marketplace generator
  that replaced a built-in one, and the name of a built-in one that was not replaced),
  or its name in lower case contains \<open>sdv copilot\<close> or \<open>sdv-copilot\<close>. An entry named
  \<open>SDV-Copilot Pro\<close> is therefore left out.
\<close>

theorem marketplace_visibility:
  assumes "m \<in> set ms"
  shows "(m \<notin> set (filteredMarketplaceAddOns (Some ms) (mergedBuiltInAddOns bs (Some ms))) \<longleftrightarrow>
            (\<exists>b\<in>set bs. addon_id m = addon_id b) \<or>
            (\<exists>b\<in>set bs. toLowerCase (addon_name m) =
               toLowerCase (case find (\<lambda>x. addon_id x = addon_id b) ms of
                              Some x \<Rightarrow> addon_name x
                            | None \<Rightarrow> addon_name b)) \<or>
            includes_str (toLowerCase (addon_name m)) ''sdv copilot'' \<or>
            includes_str (toLowerCase (addon_name m)) ''sdv-copilot'') \<and>
         (addon_name m = ''SDV-Copilot Pro'' \<longrightarrow>
            m \<notin> set (filteredMarketplaceAddOns (Some ms) (mergedBuiltInAddOns bs (Some ms))))"
proof -
  let ?B = "mergedBuiltInAddOns bs (Some ms)"
  let ?name = "\<lambda>b. case find (\<lambda>x. addon_id x = addon_id b) ms of
                      Some x \<Rightarrow> addon_name x
                    | None \<Rightarrow> addon_name b"
  have ids: "addon_id ` set ?B = addon_id ` set bs"
    using mergedBuiltInAddOns_ids[of bs "Some ms"] by (metis set_map)
  have "addon_name ` set ?B = ?name ` set bs"
    using mergedBuiltInAddOns_names[of bs ms] by (metis set_map)
  then have names: "(\<lambda>b. toLowerCase (addon_name b)) ` set ?B =
      (\<lambda>b. toLowerCase (?name b)) ` set bs"
    by (metis (no_types, lifting) image_cong image_image)
  have vis: "m \<in> set (filteredMarketplaceAddOns (Some ms) ?B) \<longleftrightarrow>
      \<not> (addon_id m \<in> addon_id ` set bs) \<and>
      \<not> (toLowerCase (addon_name m) \<in> (\<lambda>b. toLowerCase (?name b)) ` set bs) \<and>
      \<not> (includes_str (toLowerCase (addon_name m)) ''sdv copilot'' \<or>
         includes_str (toLowerCase (addon_name m)) ''sdv-copilot'')"
    using filtered_membership[OF assms, of ?B] ids names by simp
  have pro: "includes_str (toLowerCase ''SDV-Copilot Pro'') ''sdv-copilot''"
    by (simp add: lower_sdv_copilot_pro)
  show ?thesis
    using vis pro by (auto simp: image_iff)
qed

text \<open>
  The statement with the names of the built-in generators themselves fails. The
  marketplace has a generator \<open>Foo\<close> with the id of the built-in \<open>SDV Copilot\<close> and a
  generator \<open>foo\<close> with the id \<open>x2\<close>. The visible list is empty: the second one is left
  out with the first, though its id is not
  the id of the built-in generator, its name is not the name of the built-in generator
  in any case of letters, and its name contains neither reserved text.
\<close>

theorem marketplace_visibility_counterexample:
  "map addon_id
     (filteredMarketplaceAddOns
        (Some [(sdv_copilot ''https://market'')\<lparr>addon_name := ''Foo''\<rparr>,
               (sdv_copilot ''https://other'')\<lparr>addon_id := ''x2'', addon_name := ''foo''\<rparr>])
        (mergedBuiltInAddOns [sdv_copilot []]
           (Some [(sdv_copilot ''https://market'')\<lparr>addon_name := ''Foo''\<rparr>,
                  (sdv_copilot ''https://other'')\<lparr>addon_id := ''x2'', addon_name := ''foo''\<rparr>]))) = [] \<and>
   addon_id ((sdv_copilot ''https://other'')\<lparr>addon_id := ''x2'', addon_name := ''foo''\<rparr>) \<noteq>
     addon_id (sdv_copilot []) \<and>
   toLowerCase (addon_name ((sdv_copilot ''https://other'')\<lparr>addon_id := ''x2'', addon_name := ''foo''\<rparr>)) \<noteq>
     toLowerCase (addon_name (sdv_copilot [])) \<and>
   \<not> includes_str (toLowerCase (addon_name ((sdv_copilot ''https://other'')\<lparr>addon_id := ''x2'', addon_name := ''foo''\<rparr>)))
       ''sdv copilot'' \<and>
   \<not> includes_str (toLowerCase (addon_name ((sdv_copilot ''https://other'')\<lparr>addon_id := ''x2'', addon_name := ''foo''\<rparr>)))
       ''sdv-copilot''"
  by code_simp

theorem marketplace_visibility_witness:
  "(sdv_copilot ''https://e'')\<lparr>addon_id := ''m1'', addon_name := ''SDV-Copilot Pro''\<rparr>
   \<notin> set (filteredMarketplaceAddOns
      (Some [(sdv_copilot ''https://e'')\<lparr>addon_id := ''m1'', addon_name := ''SDV-Copilot Pro''\<rparr>])
      (mergedBuiltInAddOns [sdv_copilot []]
         (Some [(sdv_copilot ''https://e'')\<lparr>addon_id := ''m1'', addon_name := ''SDV-Copilot Pro''\<rparr>])))"
  using marketplace_visibility[of
      "(sdv_copilot ''https://e'')\<lparr>addon_id := ''m1'', addon_name := ''SDV-Copilot Pro''\<rparr>"
      "[(sdv_copilot ''https://e'')\<lparr>addon_id := ''m1'', addon_name := ''SDV-Copilot Pro''\<rparr>]"
      "[sdv_copilot []]"]
  by simp

text \<open>
  C9. Every call of \<open>handleGenerate\<close> with a selected generator begins with the empty
  text on the callback \<open>onCodeGenerated\<close>, before anything else happens. What the
  consumer holds afterwards therefore does not depend on what it held before, and it is
  the empty text when the rest of the call gives the callback nothing.
\<close>

theorem code_reset_first:
  "\<exists>rest. handleGenerate env (Some a) prompt = CodeGenerated (JString []) # rest \<and>
      consumer_buffer old (handleGenerate env (Some a) prompt) =
        consumer_buffer (JString []) rest \<and>
      (\<not> list_ex is_code rest \<longrightarrow>
         consumer_buffer old (handleGenerate env (Some a) prompt) = JString [])"
proof -
  obtain rest where r: "handleGenerate env (Some a) prompt = CodeGenerated (JString []) # rest"
    using handleGenerate_Some by blast
  then have b: "consumer_buffer old (handleGenerate env (Some a) prompt) =
      consumer_buffer (JString []) rest"
    by simp
  have "\<not> list_ex is_code rest \<longrightarrow>
      consumer_buffer old (handleGenerate env (Some a) prompt) = JString []"
    using b consumer_buffer_keeps by simp
  with r b show ?thesis by blast
qed

text \<open>
  A POST generator whose request fails: the error goes to the console, and the consumer
  is left with the empty text in place of its old one.
\<close>

theorem code_reset_first_witness:
  "consumer_buffer (JString ''old code'')
     (handleGenerate
        \<lparr>getConfig = Inr None, axios_get = (\<lambda>u h. Inl (AxiosError None)),
         axios_post = (\<lambda>u b h. Inl (AxiosError None)), encodeURIComponent = (\<lambda>s. s),
         JSON_stringify = (\<lambda>v n. []), Number_toString = (\<lambda>n. n),
         default_generated_code = ''pass''\<rparr>
        (Some ((sdv_copilot ''https://e'')\<lparr>addon_name := ''Mine''\<rparr>)) ''hi'') = JString []"
proof -
  have "handleGenerate
        \<lparr>getConfig = Inr None, axios_get = (\<lambda>u h. Inl (AxiosError None)),
         axios_post = (\<lambda>u b h. Inl (AxiosError None)), encodeURIComponent = (\<lambda>s. s),
         JSON_stringify = (\<lambda>v n. []), Number_toString = (\<lambda>n. n),
         default_generated_code = ''pass''\<rparr>
        (Some ((sdv_copilot ''https://e'')\<lparr>addon_name := ''Mine''\<rparr>)) ''hi'' =
      [CodeGenerated (JString []), SetLoading True, LoadingChange True,
       HttpPost (JString ''https://e'') [(''systemMessage'', []), (''prompt'', ''hi'')]
         [(''Authorization'', ''Empty''), (''Content-Type'', ''application/json'')],
       ConsoleLog (AxiosError None),
       SetLoading False, LoadingChange False, FinishChange True]"
    by code_simp
  then show ?thesis
    using code_reset_first[of
        "\<lparr>getConfig = Inr None, axios_get = (\<lambda>u h. Inl (AxiosError None)),
         axios_post = (\<lambda>u b h. Inl (AxiosError None)), encodeURIComponent = (\<lambda>s. s),
         JSON_stringify = (\<lambda>v n. []), Number_toString = (\<lambda>n. n),
         default_generated_code = ''pass''\<rparr>"
        "(sdv_copilot ''https://e'')\<lparr>addon_name := ''Mine''\<rparr>" "''hi''" "JString ''old code''"]
    by (auto simp: is_code_def)
qed

text \<open>
  C10, as the code has it. The id of a user's generator is the name of the asset, a
  hyphen, and the characters 2 to 7 of the random text drawn for it, which are at most six.
  For one asset, two loads give the same id exactly when these characters agree; there
  are draws that give different ids, so the ids are not stable across loads.
\<close>

theorem user_addon_id:
  "addon_id (asset_addon r a) = to_string (asset_name a) @ ''-'' @ substring 2 8 r \<and>
   length (substring 2 8 r) \<le> 6 \<and>
   (addon_id (asset_addon r1 a) = addon_id (asset_addon r2 a) \<longleftrightarrow>
      substring 2 8 r1 = substring 2 8 r2) \<and>
   (\<exists>b q1 q2. addon_id (asset_addon q1 b) \<noteq> addon_id (asset_addon q2 b))"
proof -
  have l: "length (substring 2 8 r) \<le> 6"
    by (simp add: substring_def)
  have e: "addon_id (asset_addon r1 a) = addon_id (asset_addon r2 a) \<longleftrightarrow>
      substring 2 8 r1 = substring 2 8 r2"
    by (simp add: asset_addon_id)
  have "addon_id (asset_addon ''0.aaaaaa''
          \<lparr>asset_type = ''GENAI-PYTHON'', asset_name = None, asset_data = None\<rparr>) \<noteq>
      addon_id (asset_addon ''0.bbbbbb''
          \<lparr>asset_type = ''GENAI-PYTHON'', asset_name = None, asset_data = None\<rparr>)"
    by (simp add: asset_addon_id substring_def)
  then have x: "\<exists>b q1 q2. addon_id (asset_addon q1 b) \<noteq> addon_id (asset_addon q2 b)"
    by blast
  from asset_addon_id l e x show ?thesis by blast
qed

text \<open>
  The statement that a later load never gives the remembered id again fails, and so
  does the length of six. The numbers \<open>1/2 + 1/2^32\<close> and \<open>1/2 + 1/2^33\<close> are written
  \<open>0.i00000i8u9q\<close> and \<open>0.i0000094f5\<close> in base 36: two different draws with the same
  id. The number \<open>1/2\<close> is written \<open>0.i\<close>: a suffix of one character, and the same
  id whenever it is drawn again.
\<close>

theorem user_addon_id_counterexample:
  "''0.i00000i8u9q'' \<noteq> ''0.i0000094f5'' \<and>
   addon_id (asset_addon ''0.i00000i8u9q''
     \<lparr>asset_type = ''GENAI-PYTHON'', asset_name = Some ''mine'', asset_data = Some ''{}''\<rparr>) =
   addon_id (asset_addon ''0.i0000094f5''
     \<lparr>asset_type = ''GENAI-PYTHON'', asset_name = Some ''mine'', asset_data = Some ''{}''\<rparr>) \<and>
   addon_id (asset_addon ''0.i''
     \<lparr>asset_type = ''GENAI-PYTHON'', asset_name = Some ''mine'', asset_data = Some ''{}''\<rparr>) = ''mine-i''"
  by (simp add: asset_addon_id substring_def to_string_def)

theorem user_addon_id_witness:
  "addon_id (asset_addon ''0.4fzyo82mvyr''
     \<lparr>asset_type = ''GENAI-PYTHON'', asset_name = Some ''mine'', asset_data = Some ''{}''\<rparr>) = ''mine-4fzyo8'' \<and>
   addon_id (asset_addon ''0.i''
     \<lparr>asset_type = ''GENAI-PYTHON'', asset_name = None, asset_data = None\<rparr>) = ''undefined-i''"
  using user_addon_id[of "''0.4fzyo82mvyr''"
      "\<lparr>asset_type = ''GENAI-PYTHON'', asset_name = Some ''mine'', asset_data = Some ''{}''\<rparr>"]
    user_addon_id[of "''0.i''"
      "\<lparr>asset_type = ''GENAI-PYTHON'', asset_name = None, asset_data = None\<rparr>"]
  by (simp add: substring_def to_string_def)

end
